theory Spec2Isabelle
  imports Main
begin

section \<open>JavaScript values\<close>

text \<open>
  The values that flow through \<^verbatim>\<open>src/index.ts\<close>. A plain object is the list of its own
  enumerable entries in enumeration order (keys distinct), an array the list of its elements.
  \<open>JFile\<close> is a \<^verbatim>\<open>File\<close>, \<open>JFormData\<close> a \<^verbatim>\<open>FormData\<close> with the
  \<^verbatim>\<open>(name, value)\<close> pairs appended to it, \<open>JError name message\<close> an \<^verbatim>\<open>Error\<close>
  object and \<open>JOpaque c\<close> any other host object of class \<open>c\<close> (an \<^verbatim>\<open>AbortSignal\<close>, a
  pending \<^verbatim>\<open>Promise\<close>). Numbers are the integers; strings are byte strings (UTF-8), so the
  Chinese literals of the source are written as their bytes.
\<close>

datatype jsval =
    JUndefined
  | JNull
  | JBool bool
  | JNum int
  | JStr string
  | JArr "jsval list"
  | JObj "(string \<times> jsval) list"
  | JFile string
  | JFormData "(string \<times> jsval) list"
  | JError string string
  | JOpaque string

text \<open>A thrown exception (a \<^verbatim>\<open>TypeError\<close> with its message).\<close>

datatype error = TypeError string

text \<open>\<^verbatim>\<open>typeof v\<close>.\<close>

fun typeof :: "jsval \<Rightarrow> string" where
  "typeof JUndefined = ''undefined''"
| "typeof (JBool b) = ''boolean''"
| "typeof (JNum n) = ''number''"
| "typeof (JStr s) = ''string''"
| "typeof _ = ''object''"

text \<open>The truthiness that \<^verbatim>\<open>&&\<close>, \<^verbatim>\<open>||\<close>, \<^verbatim>\<open>?:\<close> and \<^verbatim>\<open>if\<close> test.\<close>

fun truthy :: "jsval \<Rightarrow> bool" where
  "truthy JUndefined = False"
| "truthy JNull = False"
| "truthy (JBool b) = b"
| "truthy (JNum n) = (n \<noteq> 0)"
| "truthy (JStr s) = (s \<noteq> [])"
| "truthy _ = True"

definition digit_char :: "nat \<Rightarrow> char" where
  "digit_char d = ''0123456789'' ! d"

fun show_nat :: "nat \<Rightarrow> string" where
  "show_nat n = (if n < 10 then [digit_char n] else show_nat (n div 10) @ [digit_char (n mod 10)])"

declare show_nat.simps [simp del]

definition show_int :: "int \<Rightarrow> string" where
  "show_int i = (if i < 0 then ''-'' @ show_nat (nat (- i)) else show_nat (nat i))"

fun join_comma :: "string list \<Rightarrow> string" where
  "join_comma [] = []"
| "join_comma [s] = s"
| "join_comma (s # t # ss) = s @ '','' @ join_comma (t # ss)"

text \<open>
  The string conversion \<^verbatim>\<open>ToString\<close> that string concatenation, template literals,
  property keys and \<^verbatim>\<open>RegExp.prototype.test\<close> apply to their operand (numbers: decimal
  notation, as for every integer of magnitude below \<open>10^21\<close>).
\<close>

fun ToString :: "jsval \<Rightarrow> string" where
  "ToString JUndefined = ''undefined''"
| "ToString JNull = ''null''"
| "ToString (JBool b) = (if b then ''true'' else ''false'')"
| "ToString (JNum n) = show_int n"
| "ToString (JStr s) = s"
| "ToString (JArr xs) =
     join_comma (map (\<lambda>x. if x = JUndefined \<or> x = JNull then [] else ToString x) xs)"
| "ToString (JObj kvs) = ''[object Object]''"
| "ToString (JFile name) = ''[object File]''"
| "ToString (JFormData fd) = ''[object FormData]''"
| "ToString (JError name msg) =
     (if name = [] then msg else if msg = [] then name else name @ '': '' @ msg)"
| "ToString (JOpaque c) = ''[object '' @ c @ '']''"

text \<open>
  Reading an own property \<^verbatim>\<open>o[k]\<close> of a value that is not \<^verbatim>\<open>undefined\<close> or
  \<^verbatim>\<open>null\<close>: a plain object gives the entry, \<^verbatim>\<open>undefined\<close> when it has none. The source
  reads header names only, which no other value of the model carries.
\<close>

fun get_property :: "jsval \<Rightarrow> string \<Rightarrow> jsval" where
  "get_property (JObj kvs) k = (case map_of kvs k of None \<Rightarrow> JUndefined | Some v \<Rightarrow> v)"
| "get_property _ k = JUndefined"

fun index_entries :: "nat \<Rightarrow> 'a list \<Rightarrow> (string \<times> 'a) list" where
  "index_entries n [] = []"
| "index_entries n (x # xs) = (show_nat n, x) # index_entries (Suc n) xs"

text \<open>
  \<^verbatim>\<open>Object.entries(v)\<close>: \<open>None\<close> is the \<^verbatim>\<open>TypeError\<close> it throws on \<^verbatim>\<open>undefined\<close>
  and \<^verbatim>\<open>null\<close>. A string enumerates its characters, a host object has no own enumerable
  entry.
\<close>

fun Object_entries :: "jsval \<Rightarrow> (string \<times> jsval) list option" where
  "Object_entries JUndefined = None"
| "Object_entries JNull = None"
| "Object_entries (JObj kvs) = Some kvs"
| "Object_entries (JArr xs) = Some (index_entries 0 xs)"
| "Object_entries (JStr s) = Some (index_entries 0 (map (\<lambda>c. JStr [c]) s))"
| "Object_entries _ = Some []"

text \<open>
  An object whose key order no code of the repository observes (a request configuration, a
  response envelope) is a finite map; a key that is present with the value
  \<^verbatim>\<open>undefined\<close> is \<open>Some JUndefined\<close>, an absent key is \<open>None\<close>.
\<close>

type_synonym object = "string \<rightharpoonup> jsval"

type_synonym TConfig = object

text \<open>Reading \<^verbatim>\<open>config.k\<close>: an absent key reads as \<^verbatim>\<open>undefined\<close>.\<close>

definition field :: "object \<Rightarrow> string \<Rightarrow> jsval" where
  "field ob k = (case ob k of None \<Rightarrow> JUndefined | Some v \<Rightarrow> v)"

text \<open>
  \<^verbatim>\<open>Object.assign(target, ...sources)\<close>, and the object spread \<^verbatim>\<open>{...a, ...b}\<close>:
  each source's own keys are written over the target's, left to right.
\<close>

definition Object_assign :: "object \<Rightarrow> object list \<Rightarrow> object" where
  "Object_assign target sources = foldl (++) target sources"

text \<open>Writing the entries of a value one after the other, as \<^verbatim>\<open>{...ob, ...v}\<close> does.\<close>

fun spread_entries :: "object \<Rightarrow> (string \<times> jsval) list \<Rightarrow> object" where
  "spread_entries ob [] = ob"
| "spread_entries ob ((k, v) # rest) = spread_entries (ob(k \<mapsto> v)) rest"

definition spread :: "object \<Rightarrow> jsval \<Rightarrow> object" where
  "spread ob v = (case Object_entries v of None \<Rightarrow> ob | Some es \<Rightarrow> spread_entries ob es)"

section \<open>The environment of the code\<close>

text \<open>
  What the code calls and the repository does not define: \<^verbatim>\<open>qs.stringify\<close> of the
  package \<^verbatim>\<open>qs\<close> (a string on every value), \<^verbatim>\<open>JSON.stringify\<close> (a string, or
  \<^verbatim>\<open>undefined\<close>), \<^verbatim>\<open>Date.prototype.toTimeString\<close> of a clock reading in
  milliseconds, and the text of a number of milliseconds divided by 1000 (a floating-point
  quotient printed by a template literal).
\<close>

record runtime =
  qs_stringify :: "jsval \<Rightarrow> string"
  JSON_stringify :: "jsval \<Rightarrow> jsval"
  toTimeString :: "int \<Rightarrow> string"
  seconds_text :: "int \<Rightarrow> string"

text \<open>
  A runtime for the worked examples. Its \<open>qs_stringify\<close> writes the entries of a flat
  object as \<^verbatim>\<open>key=value\<close> joined by \<^verbatim>\<open>&\<close> and gives the empty string on any other
  value, as \<^verbatim>\<open>qs.stringify\<close> does where nothing needs escaping or nesting; its
  \<open>JSON_stringify\<close> is a stand-in that marks its output; a clock reading and a duration
  are printed as the number of milliseconds.
\<close>

fun join_amp :: "string list \<Rightarrow> string" where
  "join_amp [] = []"
| "join_amp [s] = s"
| "join_amp (s # t # ss) = s @ ''&'' @ join_amp (t # ss)"

definition example_runtime :: runtime where
  "example_runtime =
     \<lparr>qs_stringify =
        (\<lambda>data. case data of
                  JObj kvs \<Rightarrow> join_amp (map (\<lambda>(k, v). k @ ''='' @ ToString v) kvs)
                | _ \<Rightarrow> []),
      JSON_stringify =
        (\<lambda>data. if data = JUndefined then JUndefined else JStr (''JSON '' @ ToString data)),
      toTimeString = show_int,
      seconds_text = show_int\<rparr>"

section \<open>getFormData\<close>

definition application_json :: string where
  "application_json = ''application/json''"

definition application_form :: string where
  "application_form = ''application/x-www-form-urlencoded''"

fun instanceof_FormData :: "jsval \<Rightarrow> bool" where
  "instanceof_FormData (JFormData fd) = True"
| "instanceof_FormData _ = False"

fun instanceof_File :: "jsval \<Rightarrow> bool" where
  "instanceof_File (JFile name) = True"
| "instanceof_File _ = False"

text \<open>
  \<^verbatim>\<open>getFormData(data, key, body)\<close> with the \<^verbatim>\<open>FormData\<close> \<open>body\<close> passed along:
  \<open>getFormData_fill\<close> is one call (its result is the state of \<open>body\<close> after it, the value
  it returns being used by the outermost call only), \<open>getFormData_for\<close> the loop over
  \<^verbatim>\<open>Object.entries(data)\<close>. \<open>body @ [(k, item)]\<close> is \<^verbatim>\<open>body.append(k, item)\<close>. \<open>Inl\<close>
  is the \<^verbatim>\<open>TypeError\<close> of \<^verbatim>\<open>Object.entries\<close>, which ends every enclosing call.
\<close>

function getFormData_fill ::
    "jsval \<Rightarrow> string \<Rightarrow> (string \<times> jsval) list \<Rightarrow> error + (string \<times> jsval) list"
  and getFormData_for ::
    "(string \<times> jsval) list \<Rightarrow> string \<Rightarrow> (string \<times> jsval) list \<Rightarrow> error + (string \<times> jsval) list"
where
  "getFormData_fill data key body =
     (if instanceof_FormData data then Inr body
      else
        (case Object_entries data of
           None \<Rightarrow> Inl (TypeError ''Cannot convert undefined or null to object'')
         | Some es \<Rightarrow> getFormData_for es key body))"
| "getFormData_for [] key body = Inr body"
| "getFormData_for ((i, item) # rest) key body =
     (let k = (if key \<noteq> [] then key @ ''['' @ i @ '']'' else i) in
      if typeof item = ''object'' \<and> \<not> instanceof_File item
      then (case getFormData_fill item k body of
              Inl e \<Rightarrow> Inl e
            | Inr body' \<Rightarrow> getFormData_for rest key body')
      else getFormData_for rest key (body @ [(k, item)]))"
  by pat_completeness auto

text \<open>The measure of the termination proof: the sizes of the entries the loop descends into.\<close>

fun entries_weight :: "(string \<times> jsval) list \<Rightarrow> nat" where
  "entries_weight [] = 0"
| "entries_weight ((i, item) # rest) =
     (if typeof item = ''object'' then size item + 1 else 0) + entries_weight rest"

termination getFormData_fill
proof (relation "measures
    [case_sum (\<lambda>(data, key, body). size data + 1) (\<lambda>(es, key, body). entries_weight es),
     case_sum (\<lambda>(data, key, body). 0) (\<lambda>(es, key, body). length es)]")
  have obj: "entries_weight kvs \<le> size_list (size_prod (\<lambda>_. 0) size) kvs" for kvs
    by (induction kvs) auto
  have arr: "entries_weight (index_entries n xs) \<le> size_list size xs" for n xs
  proof (induction xs arbitrary: n)
    case Nil
    show ?case by simp
  next
    case (Cons x xs)
    from Cons.IH [of "Suc n"] show ?case by simp
  qed
  have str: "entries_weight (index_entries n (map (\<lambda>c. JStr [c]) s)) = 0" for n s
    by (induction s arbitrary: n) auto
  have entries: "entries_weight es \<le> size data" if "Object_entries data = Some es" for data es
    using that obj [of es] arr [of 0] str [of 0]
    by (cases data) (auto simp: le_Suc_eq)
  show "wf (measures
    [case_sum (\<lambda>(data, key, body). size data + 1) (\<lambda>(es, key, body). entries_weight es),
     case_sum (\<lambda>(data, key, body). 0) (\<lambda>(es, key, body). length es)])"
    by simp
  fix data :: jsval and key :: string and body :: "(string \<times> jsval) list" and es
  assume "Object_entries data = Some es"
  then show "(Inr (es, key, body), Inl (data, key, body)) \<in> measures
    [case_sum (\<lambda>(data, key, body). size data + 1) (\<lambda>(es, key, body). entries_weight es),
     case_sum (\<lambda>(data, key, body). 0) (\<lambda>(es, key, body). length es)]"
    using entries [of data es] by simp
qed auto

text \<open>
  The outermost call \<^verbatim>\<open>getFormData(data)\<close>, with \<^verbatim>\<open>key = ''\<close> and a new
  \<^verbatim>\<open>FormData\<close>: a \<^verbatim>\<open>FormData\<close> is returned as it is.
\<close>

definition getFormData :: "jsval \<Rightarrow> error + jsval" where
  "getFormData data =
     (if instanceof_FormData data then Inr data
      else (case getFormData_fill data [] [] of
              Inl e \<Rightarrow> Inl e
            | Inr body \<Rightarrow> Inr (JFormData body)))"

text \<open>
  The multipart payload as the specification words it, to compare \<open>getFormData\<close> with:
  one entry per leaf field, the fields of a nested object or array named
  \<^verbatim>\<open>outer[inner]\<close>, a file a leaf of its own. (A nested \<^verbatim>\<open>FormData\<close> or other host
  object has no field and gives no entry.) \<open>null_free\<close> holds of the data that have no
  \<^verbatim>\<open>null\<close> anywhere inside.
\<close>

definition spec_field_name :: "string \<Rightarrow> string \<Rightarrow> string" where
  "spec_field_name outer inner = (if outer \<noteq> [] then outer @ ''['' @ inner @ '']'' else inner)"

fun spec_leaves :: "string \<Rightarrow> jsval \<Rightarrow> (string \<times> jsval) list"
  and spec_leaves_obj :: "string \<Rightarrow> (string \<times> jsval) list \<Rightarrow> (string \<times> jsval) list"
  and spec_leaves_arr :: "string \<Rightarrow> nat \<Rightarrow> jsval list \<Rightarrow> (string \<times> jsval) list"
where
  "spec_leaves name (JObj kvs) = spec_leaves_obj name kvs"
| "spec_leaves name (JArr xs) = spec_leaves_arr name 0 xs"
| "spec_leaves name (JFormData fd) = []"
| "spec_leaves name (JError n m) = []"
| "spec_leaves name (JOpaque c) = []"
| "spec_leaves name JNull = []"
| "spec_leaves name JUndefined = [(name, JUndefined)]"
| "spec_leaves name (JBool b) = [(name, JBool b)]"
| "spec_leaves name (JNum n) = [(name, JNum n)]"
| "spec_leaves name (JStr s) = [(name, JStr s)]"
| "spec_leaves name (JFile f) = [(name, JFile f)]"
| "spec_leaves_obj outer [] = []"
| "spec_leaves_obj outer ((i, v) # rest) =
     spec_leaves (spec_field_name outer i) v @ spec_leaves_obj outer rest"
| "spec_leaves_arr outer n [] = []"
| "spec_leaves_arr outer n (x # xs) =
     spec_leaves (spec_field_name outer (show_nat n)) x @ spec_leaves_arr outer (Suc n) xs"

fun null_free :: "jsval \<Rightarrow> bool" where
  "null_free JNull = False"
| "null_free (JObj kvs) = list_all (\<lambda>p. null_free (snd p)) kvs"
| "null_free (JArr xs) = list_all null_free xs"
| "null_free _ = True"

section \<open>toBody\<close>

text \<open>
  \<^verbatim>\<open>applicationToBodyFun[key]\<close>: the function stored under a content type, \<open>None\<close> when
  the object has no such key (the members it inherits from \<^verbatim>\<open>Object.prototype\<close>, which
  are no content types, are left out).
\<close>

definition applicationToBodyFun :: "runtime \<Rightarrow> string \<Rightarrow> (jsval \<Rightarrow> jsval) option" where
  "applicationToBodyFun rt key =
     (if key = application_json then Some (JSON_stringify rt)
      else if key = application_form then Some (\<lambda>data. JStr (qs_stringify rt data))
      else None)"

text \<open>
  The \<^verbatim>\<open>reduce\<close> over the four spellings of the header name, from the initial value
  \<^verbatim>\<open>''\<close>: each step is \<^verbatim>\<open>(config.headers && config.headers[i]) || c\<close>.
\<close>

definition contentType_step :: "TConfig \<Rightarrow> jsval \<Rightarrow> string \<Rightarrow> jsval" where
  "contentType_step config c i =
     (let headers = field config ''headers'';
          found = (if truthy headers then get_property headers i else headers)
      in if truthy found then found else c)"

definition contentType_of :: "TConfig \<Rightarrow> jsval" where
  "contentType_of config =
     foldl (contentType_step config) (JStr [])
       [''Content-Type'', ''Content-type'', ''content-Type'', ''content-type'']"

text \<open>
  \<^verbatim>\<open>toBodyFun(config.data)\<close> of the non-GET branch: \<open>Inl\<close> when the call throws, because
  \<^verbatim>\<open>toBodyFun\<close> is \<^verbatim>\<open>undefined\<close> or because \<^verbatim>\<open>getFormData\<close> throws.
\<close>

definition toBodyFun_result :: "runtime \<Rightarrow> TConfig \<Rightarrow> error + jsval" where
  "toBodyFun_result rt config =
     (let contentType = contentType_of config in
      if truthy contentType
      then (case applicationToBodyFun rt (ToString contentType) of
              None \<Rightarrow> Inl (TypeError ''toBodyFun is not a function'')
            | Some toBodyFun \<Rightarrow> Inr (toBodyFun (field config ''data'')))
      else getFormData (field config ''data''))"

text \<open>
  \<^verbatim>\<open>toBody(config)\<close> changes its argument in place. The result is the state of the
  configuration object after the call and the exception the call threw, if any; when it
  threw nothing, the object is also the value returned.
\<close>

definition toBody :: "runtime \<Rightarrow> TConfig \<Rightarrow> TConfig \<times> error option" where
  "toBody rt config =
     (if field config ''method'' = JStr ''GET'' then
        (let params = qs_stringify rt (field config ''data'') in
         if params \<noteq> []
         then (config(''url'' \<mapsto> JStr (ToString (field config ''url'') @ ''?'' @ params)), None)
         else (config, None))
      else
        (case toBodyFun_result rt config of
           Inl e \<Rightarrow> (config, Some e)
         | Inr body \<Rightarrow> (config(''body'' \<mapsto> body), None)))"

section \<open>labelToConfig and the verb functions' configuration\<close>

text \<open>An override argument of a verb function: \<^verbatim>\<open>TConfig | string\<close>.\<close>

datatype fragment = Label string | Fragment TConfig

definition labelToConfig :: "fragment \<Rightarrow> TConfig" where
  "labelToConfig config = (case config of Label s \<Rightarrow> [''label'' \<mapsto> JStr s] | Fragment c \<Rightarrow> c)"

text \<open>
  The argument that \<^verbatim>\<open>createRequest(method, configs)(url, data, ...args)\<close> hands to
  \<^verbatim>\<open>request\<close>: \<^verbatim>\<open>Object.assign({ method, url, data }, configs, ...args.map(labelToConfig))\<close>.
  \<open>configs = None\<close> is the omitted second argument, which \<^verbatim>\<open>Object.assign\<close> skips.
\<close>

definition createRequest_config ::
  "jsval \<Rightarrow> TConfig option \<Rightarrow> string \<Rightarrow> jsval \<Rightarrow> fragment list \<Rightarrow> TConfig" where
  "createRequest_config method configs url data args =
     Object_assign [''method'' \<mapsto> method, ''url'' \<mapsto> JStr url, ''data'' \<mapsto> data]
       ((case configs of None \<Rightarrow> [] | Some c \<Rightarrow> [c]) @ map labelToConfig args)"

text \<open>
  The six request functions of an instance: \<^verbatim>\<open>get\<close>, \<^verbatim>\<open>post\<close>, \<^verbatim>\<open>put\<close>,
  \<^verbatim>\<open>patch\<close> and \<^verbatim>\<open>del\<close> are \<^verbatim>\<open>createRequest(method)\<close>, and \<^verbatim>\<open>upload\<close> is
  \<^verbatim>\<open>createRequest('POST', { headers: {} })\<close>. \<open>verb_config\<close> is the configuration a
  call of one of them hands to \<^verbatim>\<open>request\<close>.
\<close>

datatype verb = Get | Post | Put | Patch | Del | Upload

fun verb_method :: "verb \<Rightarrow> jsval" where
  "verb_method Get = JStr ''GET''"
| "verb_method Post = JStr ''POST''"
| "verb_method Put = JStr ''PUT''"
| "verb_method Patch = JStr ''PATCH''"
| "verb_method Del = JStr ''DELETE''"
| "verb_method Upload = JStr ''POST''"

fun verb_configs :: "verb \<Rightarrow> TConfig option" where
  "verb_configs Upload = Some [''headers'' \<mapsto> JObj []]"
| "verb_configs _ = None"

definition verb_config :: "verb \<Rightarrow> string \<Rightarrow> jsval \<Rightarrow> fragment list \<Rightarrow> TConfig" where
  "verb_config v url data args =
     createRequest_config (verb_method v) (verb_configs v) url data args"

section \<open>The error classifier\<close>

text \<open>
  \<^verbatim>\<open>new RegExp(key).test(s)\<close> for a key without metacharacters (each key of
  \<^verbatim>\<open>erroText\<close> is one): the key occurs in \<open>s\<close>.
\<close>

fun RegExp_test :: "string \<Rightarrow> string \<Rightarrow> bool" where
  "RegExp_test key [] = (key = [])"
| "RegExp_test key (c # s) = (take (length key) (c # s) = key \<or> RegExp_test key s)"

definition text_timeout :: string where
  "text_timeout = [CHR 0xE7, CHR 0xBD, CHR 0x91, CHR 0xE7, CHR 0xBB, CHR 0x9C, CHR 0xE8, CHR 0xBF,
     CHR 0x9E, CHR 0xE6, CHR 0x8E, CHR 0xA5, CHR 0xE8, CHR 0xB6, CHR 0x85, CHR 0xE6, CHR 0x97, CHR 0xB6]"

definition text_address :: string where
  "text_address = [CHR 0xE8, CHR 0xAF, CHR 0xB7, CHR 0xE6, CHR 0xB1, CHR 0x82, CHR 0xE5, CHR 0x9C,
     CHR 0xB0, CHR 0xE5, CHR 0x9D, CHR 0x80, CHR 0xE9, CHR 0x94, CHR 0x99, CHR 0xE8, CHR 0xAF, CHR 0xAF]"

definition text_other :: string where
  "text_other = [CHR 0xE5, CHR 0x85, CHR 0xB6, CHR 0xE4, CHR 0xBB, CHR 0x96, CHR 0xE9, CHR 0x94,
     CHR 0x99, CHR 0xE8, CHR 0xAF, CHR 0xAF]"

text \<open>The table \<^verbatim>\<open>erroText\<close>, in the order \<^verbatim>\<open>Object.entries\<close> enumerates it.\<close>

definition erroText :: "(string \<times> string) list" where
  "erroText =
     [(''timeout'', text_timeout),
      (''Network Error'', text_address),
      (''Failed to fetch'', text_address),
      (''request:fail'', text_address)]"

fun erroToText_for :: "(string \<times> string) list \<Rightarrow> string \<Rightarrow> string" where
  "erroToText_for [] error = text_other"
| "erroToText_for ((key, item) # rest) error =
     (if RegExp_test key error then item else erroToText_for rest error)"

definition erroToText :: "string \<Rightarrow> string" where
  "erroToText error = erroToText_for erroText error"

section \<open>statisticalTime\<close>

definition seconds_suffix :: string where
  "seconds_suffix = [CHR 0xE7, CHR 0xA7, CHR 0x92]"

text \<open>
  \<^verbatim>\<open>statisticalTime()\<close> reads the clock when it is called (\<open>start\<close>) and the function it
  returns reads it again when that is called (\<open>end\<close>); both readings are milliseconds.
  The result of the second call:
\<close>

definition statisticalTime :: "runtime \<Rightarrow> int \<Rightarrow> int \<Rightarrow> jsval" where
  "statisticalTime rt start end =
     JObj [(''start'', JStr (toTimeString rt start)),
           (''end'', JStr (toTimeString rt end)),
           (''total'', JStr (seconds_text rt (end - start) @ seconds_suffix))]"

section \<open>The class FetchRequest\<close>

text \<open>
  A promise as the code that awaits it sees it. A function that returns a promise has the
  result type \<open>error + 'a promise\<close>: \<open>Inl\<close> is an exception thrown by the call itself,
  before any promise exists.
\<close>

datatype 'a promise = Pending | Rejected jsval | Resolved 'a

text \<open>
  The fields of an instance. \<open>requestFunction = None\<close> is the field's initial value, the
  transport of the class itself (\<open>requestFunction_builtin\<close> below); an interceptor that
  throws returns \<open>Inl\<close>.
\<close>

record FetchRequest =
  host :: string
  apiPath :: string
  defaultConfig :: TConfig
  interceptorsRequest :: "TConfig \<Rightarrow> error + TConfig"
  interceptorsResponse :: "object \<Rightarrow> TConfig \<Rightarrow> error + object"
  requestFunction :: "(TConfig \<Rightarrow> error + jsval promise) option"

text \<open>The constructor's argument \<^verbatim>\<open>TFetchRequestConfig\<close>: \<open>None\<close> is a key left out.\<close>

record TFetchRequestConfig =
  init_defaultConfig :: "TConfig option"
  init_host :: "string option"
  init_apiPath :: "string option"
  init_interceptorsRequest :: "(TConfig \<Rightarrow> error + TConfig) option"
  init_interceptorsResponse :: "(object \<Rightarrow> TConfig \<Rightarrow> error + object) option"
  init_requestFunction :: "(TConfig \<Rightarrow> error + jsval promise) option"

text \<open>The field initialisers of the class.\<close>

definition initial_fields :: FetchRequest where
  "initial_fields =
     \<lparr>host = [], apiPath = [],
      defaultConfig =
        [''mode'' \<mapsto> JStr ''cors'',
         ''method'' \<mapsto> JStr ''GET'',
         ''cache'' \<mapsto> JStr ''default'',
         ''credentials'' \<mapsto> JStr ''omit'',
         ''responseType'' \<mapsto> JStr ''json'',
         ''headers'' \<mapsto> JObj [(''Accept'', JStr application_json),
                                 (''Content-Type'', JStr application_json)],
         ''timeout'' \<mapsto> JNum 5000],
      interceptorsRequest = (\<lambda>config. Inr config),
      interceptorsResponse = (\<lambda>res config. Inr res),
      requestFunction = None\<rparr>"

text \<open>
  \<^verbatim>\<open>new FetchRequest(config)\<close>: \<^verbatim>\<open>Object.assign(this.defaultConfig, defaultConfig)\<close>,
  then \<^verbatim>\<open>requestFunction\<close> when it is given, then \<^verbatim>\<open>Object.assign(this, configs)\<close> for
  the other keys.
\<close>

definition new_FetchRequest :: "TFetchRequestConfig option \<Rightarrow> FetchRequest" where
  "new_FetchRequest config =
     (case config of
        None \<Rightarrow> initial_fields
      | Some c \<Rightarrow>
          \<lparr>host = (case init_host c of None \<Rightarrow> host initial_fields | Some h \<Rightarrow> h),
           apiPath = (case init_apiPath c of None \<Rightarrow> apiPath initial_fields | Some a \<Rightarrow> a),
           defaultConfig =
             Object_assign (defaultConfig initial_fields)
               (case init_defaultConfig c of None \<Rightarrow> [] | Some d \<Rightarrow> [d]),
           interceptorsRequest =
             (case init_interceptorsRequest c of
                None \<Rightarrow> interceptorsRequest initial_fields | Some f \<Rightarrow> f),
           interceptorsResponse =
             (case init_interceptorsResponse c of
                None \<Rightarrow> interceptorsResponse initial_fields | Some f \<Rightarrow> f),
           requestFunction =
             (case init_requestFunction c of
                None \<Rightarrow> requestFunction initial_fields | Some f \<Rightarrow> Some f)\<rparr>)"

definition baseURL :: "FetchRequest \<Rightarrow> string" where
  "baseURL this = host this @ apiPath this"

text \<open>\<^verbatim>\<open>/^http/.test(s)\<close>.\<close>

definition starts_with_http :: "string \<Rightarrow> bool" where
  "starts_with_http s = (take 4 s = ''http'')"

text \<open>
  The first statements of \<^verbatim>\<open>request(configs)\<close>, up to the argument of the request
  interceptor: \<^verbatim>\<open>let { url = '', ...config } = configs\<close>, the prefixing of \<^verbatim>\<open>url\<close>, and
  \<^verbatim>\<open>{ url, ...this.defaultConfig, ...config }\<close>.
\<close>

definition merged_config :: "FetchRequest \<Rightarrow> TConfig \<Rightarrow> TConfig" where
  "merged_config this configs =
     (let url0 = (if field configs ''url'' = JUndefined then JStr [] else field configs ''url'');
          config = configs |` (- {''url''});
          url = (if \<not> starts_with_http (ToString url0) then JStr (baseURL this @ ToString url0)
                 else url0)
      in Object_assign [''url'' \<mapsto> url] [defaultConfig this, config])"

text \<open>
  What \<^verbatim>\<open>fetch\<close> resolves with: a \<^verbatim>\<open>Response\<close>, given by what its \<^verbatim>\<open>json()\<close> promise
  settles with (\<open>Inl\<close> a rejection, \<open>Inr\<close> the parsed value), or a value that is no
  \<^verbatim>\<open>Response\<close>.
\<close>

datatype fetched = Response "jsval + jsval" | NotResponse

text \<open>
  Which of the two promises of \<^verbatim>\<open>Promise.race([fetch(...), timeout])\<close> settles first,
  and how. The transport and the timer belong to the environment; the order in which they
  settle is an input of the model.
\<close>

datatype race = FetchResolved fetched | FetchRejected jsval | TimerFired

text \<open>
  The \<^verbatim>\<open>then\<close> callback of \<^verbatim>\<open>requestFunction\<close>. Of the members of a \<^verbatim>\<open>Response\<close>
  the four readers other than \<^verbatim>\<open>json\<close> are modelled; each returns a promise, which the
  callback stores without awaiting it. Calling anything else is a \<^verbatim>\<open>TypeError\<close> inside
  the callback, that is a rejection.
\<close>

definition unwrap_response :: "TConfig \<Rightarrow> fetched \<Rightarrow> jsval promise" where
  "unwrap_response config response =
     (case response of
        NotResponse \<Rightarrow> Resolved JUndefined
      | Response json \<Rightarrow>
          (let responseType = field config ''responseType'' in
           if truthy responseType \<and> responseType \<noteq> JStr ''json''
           then (if ToString responseType \<in> set [''arrayBuffer'', ''blob'', ''formData'', ''text'']
                 then Resolved (JObj [(ToString responseType, JOpaque ''Promise'')])
                 else Rejected (JError ''TypeError'' ''response[responseType] is not a function''))
           else (case json of Inl reason \<Rightarrow> Rejected reason | Inr v \<Rightarrow> Resolved v)))"

text \<open>
  What a call of the built-in \<^verbatim>\<open>requestFunction\<close> does: the configuration handed to
  \<^verbatim>\<open>fetch\<close> (after \<^verbatim>\<open>toBody\<close>, with the controller's signal attached), the delay given
  to \<^verbatim>\<open>setTimeout\<close>, whether the timer's callback has called \<^verbatim>\<open>controller.abort()\<close>
  when the race settles, and what the returned promise settles with.
\<close>

record dispatch =
  sent :: TConfig
  timer_delay :: jsval
  abort_called :: bool
  settles :: "jsval promise"

definition requestFunction_builtin :: "runtime \<Rightarrow> TConfig \<Rightarrow> race \<Rightarrow> error + dispatch" where
  "requestFunction_builtin rt config0 r =
     (case toBody rt config0 of
        (config1, Some e) \<Rightarrow> Inl e
      | (config1, None) \<Rightarrow>
          (let config = config1(''signal'' \<mapsto> JOpaque ''AbortSignal'') in
           Inr \<lparr>sent = config,
                timer_delay = field config ''timeout'',
                abort_called = (case r of TimerFired \<Rightarrow> True | _ \<Rightarrow> False),
                settles =
                  (case r of
                     TimerFired \<Rightarrow> Rejected (JStr ''request timeout'')
                   | FetchRejected reason \<Rightarrow> Rejected reason
                   | FetchResolved response \<Rightarrow> unwrap_response config response)\<rparr>))"

text \<open>The environment of one call of \<^verbatim>\<open>request\<close>: the race and the two clock readings.\<close>

record call_env =
  winner :: race
  clock_start :: int
  clock_end :: int

text \<open>An exception as the rejection reason it becomes when thrown inside a callback.\<close>

fun error_value :: "error \<Rightarrow> jsval" where
  "error_value (TypeError msg) = JError ''TypeError'' msg"

text \<open>
  The object that \<^verbatim>\<open>request\<close> hands to the response interceptor:
  \<^verbatim>\<open>{ time: st(), ...res }\<close>, where \<open>res\<close> is the value the transport resolved with, or
  \<^verbatim>\<open>{ error, errorText: erroToText(error) }\<close> after a rejection.
\<close>

definition envelope :: "runtime \<Rightarrow> call_env \<Rightarrow> jsval promise \<Rightarrow> object option" where
  "envelope rt env p =
     (case p of
        Pending \<Rightarrow> None
      | Rejected error \<Rightarrow>
          Some (spread [''time'' \<mapsto> statisticalTime rt (clock_start env) (clock_end env)]
                  (JObj [(''error'', error), (''errorText'', JStr (erroToText (ToString error)))]))
      | Resolved res \<Rightarrow>
          Some (spread [''time'' \<mapsto> statisticalTime rt (clock_start env) (clock_end env)] res))"

text \<open>
  \<^verbatim>\<open>request(configs)\<close>. The configuration the response interceptor receives is the object
  the request interceptor returned, as the built-in transport has changed it in place.
\<close>

definition request ::
  "runtime \<Rightarrow> FetchRequest \<Rightarrow> TConfig \<Rightarrow> call_env \<Rightarrow> error + object promise" where
  "request rt this configs env =
     (case interceptorsRequest this (merged_config this configs) of
        Inl e \<Rightarrow> Inl e
      | Inr config \<Rightarrow>
          (case (case requestFunction this of
                   None \<Rightarrow>
                     (case requestFunction_builtin rt config (winner env) of
                        Inl e \<Rightarrow> Inl e
                      | Inr d \<Rightarrow> Inr (sent d, settles d))
                 | Some f \<Rightarrow>
                     (case f config of Inl e \<Rightarrow> Inl e | Inr p \<Rightarrow> Inr (config, p))) of
             Inl e \<Rightarrow> Inl e
           | Inr (config', p) \<Rightarrow>
               (case envelope rt env p of
                  None \<Rightarrow> Inr Pending
                | Some res \<Rightarrow>
                    (case interceptorsResponse this res config' of
                       Inl e \<Rightarrow> Inr (Rejected (error_value e))
                     | Inr result \<Rightarrow> Inr (Resolved result)))))"

section \<open>Properties\<close>

lemma RegExp_test_iff: "RegExp_test key s \<longleftrightarrow> (\<exists>a b. s = a @ key @ b)"
proof (induction s)
  case Nil
  then show ?case by auto
next
  case (Cons c s)
  show ?case
  proof
    assume "RegExp_test key (c # s)"
    then consider "take (length key) (c # s) = key" | "RegExp_test key s" by auto
    then show "\<exists>a b. c # s = a @ key @ b"
    proof cases
      case 1
      then have "c # s = [] @ key @ drop (length key) (c # s)"
        by (metis append_Nil append_take_drop_id)
      then show ?thesis by blast
    next
      case 2
      with Cons.IH obtain a b where "s = a @ key @ b" by blast
      then have "c # s = (c # a) @ key @ b" by simp
      then show ?thesis by blast
    qed
  next
    assume "\<exists>a b. c # s = a @ key @ b"
    then obtain a b where ab: "c # s = a @ key @ b" by blast
    show "RegExp_test key (c # s)"
    proof (cases a)
      case Nil
      with ab have "take (length key) (c # s) = key" by simp
      then show ?thesis by simp
    next
      case (Cons x a')
      with ab have "s = a' @ key @ b" by simp
      with Cons.IH have "RegExp_test key s" by blast
      then show ?thesis by simp
    qed
  qed
qed

lemma erroToText_for_find:
  "erroToText_for tbl e =
     (case find (\<lambda>p. RegExp_test (fst p) e) tbl of None \<Rightarrow> text_other | Some p \<Rightarrow> snd p)"
  by (induction tbl e rule: erroToText_for.induct) auto

text \<open>
  C8. The error classifier tries the keys \<^verbatim>\<open>timeout\<close>, \<^verbatim>\<open>Network Error\<close>,
  \<^verbatim>\<open>Failed to fetch\<close>, \<^verbatim>\<open>request:fail\<close> in that order and returns the text of the
  first key that occurs in the error string, the "other error" text when none does; it
  returns one of the three category texts on every string.
\<close>

theorem erroToText_first_match:
  "erroToText error =
     (if \<exists>a b. error = a @ ''timeout'' @ b then text_timeout
      else if \<exists>a b. error = a @ ''Network Error'' @ b then text_address
      else if \<exists>a b. error = a @ ''Failed to fetch'' @ b then text_address
      else if \<exists>a b. error = a @ ''request:fail'' @ b then text_address
      else text_other)
   \<and> erroToText error =
       (case find (\<lambda>p. RegExp_test (fst p) error) erroText of
          None \<Rightarrow> text_other | Some p \<Rightarrow> snd p)
   \<and> erroToText error \<in> {text_timeout, text_address, text_other}"
proof -
  have chain: "erroToText error =
     (if RegExp_test ''timeout'' error then text_timeout
      else if RegExp_test ''Network Error'' error then text_address
      else if RegExp_test ''Failed to fetch'' error then text_address
      else if RegExp_test ''request:fail'' error then text_address
      else text_other)"
    by (simp add: erroToText_def erroText_def)
  have first: "erroToText error =
     (if \<exists>a b. error = a @ ''timeout'' @ b then text_timeout
      else if \<exists>a b. error = a @ ''Network Error'' @ b then text_address
      else if \<exists>a b. error = a @ ''Failed to fetch'' @ b then text_address
      else if \<exists>a b. error = a @ ''request:fail'' @ b then text_address
      else text_other)"
    unfolding chain RegExp_test_iff ..
  have found: "erroToText error =
       (case find (\<lambda>p. RegExp_test (fst p) error) erroText of
          None \<Rightarrow> text_other | Some p \<Rightarrow> snd p)"
    by (simp add: erroToText_def erroToText_for_find)
  have range: "erroToText error \<in> {text_timeout, text_address, text_other}"
    unfolding chain by simp
  from first found range show ?thesis by blast
qed

theorem erroToText_first_match_witness:
  "erroToText ''request timeout'' = text_timeout
   \<and> erroToText ''TypeError: Failed to fetch'' = text_address
   \<and> erroToText ''SyntaxError: Unexpected token'' = text_other"
  using erroToText_first_match [THEN conjunct2, THEN conjunct1, of "''request timeout''"]
    erroToText_first_match [THEN conjunct2, THEN conjunct1, of "''TypeError: Failed to fetch''"]
    erroToText_first_match [THEN conjunct2, THEN conjunct1, of "''SyntaxError: Unexpected token''"]
  by (simp add: erroText_def)

lemma foldl_map_add_lookup:
  "foldl (++) m cs k =
     (case find (\<lambda>c. c k \<noteq> None) (rev cs) of None \<Rightarrow> m k | Some c \<Rightarrow> c k)"
  by (induction cs rule: rev_induct) (auto simp: map_add_def split: option.splits)

lemma labelToConfig_Label: "labelToConfig (Label t) = labelToConfig (Fragment [''label'' \<mapsto> JStr t])"
  by (simp add: labelToConfig_def)

text \<open>
  C5. The configuration a verb call \<^verbatim>\<open>verb(url, data, f1, ..., fn)\<close> hands to
  \<^verbatim>\<open>request\<close> is the left-to-right merge of \<^verbatim>\<open>{method, url, data}\<close> with the
  fragments, a string fragment counting as \<^verbatim>\<open>{label: string}\<close> (\<^verbatim>\<open>upload\<close> merges
  its pre-seeded \<^verbatim>\<open>{headers: {}}\<close> before them): every key holds the value of the last
  fragment that defines it, and the positional value when none does. So a last fragment's
  \<^verbatim>\<open>url\<close> or \<^verbatim>\<open>data\<close> replaces the positional argument, the labels \<open>A\<close> then
  \<open>B\<close> leave \<open>B\<close>, and a string fragment gives the same configuration as the fragment
  \<^verbatim>\<open>{label: string}\<close> in its place.
\<close>

theorem verb_config_merge:
  "verb_config v url data args =
     foldl (++) [''method'' \<mapsto> verb_method v, ''url'' \<mapsto> JStr url, ''data'' \<mapsto> data]
       ((case verb_configs v of None \<Rightarrow> [] | Some seed \<Rightarrow> [seed]) @ map labelToConfig args)
   \<and> (v \<noteq> Upload \<longrightarrow>
        verb_config v url data args =
          foldl (++) [''method'' \<mapsto> verb_method v, ''url'' \<mapsto> JStr url, ''data'' \<mapsto> data]
            (map labelToConfig args))
   \<and> (v \<noteq> Upload \<longrightarrow>
        verb_config v url data args k =
          (case find (\<lambda>c. c k \<noteq> None) (rev (map labelToConfig args)) of
             None \<Rightarrow> [''method'' \<mapsto> verb_method v, ''url'' \<mapsto> JStr url, ''data'' \<mapsto> data] k
           | Some c \<Rightarrow> c k))
   \<and> verb_config v url data (args @ [Fragment (c(''url'' \<mapsto> u))]) ''url'' = Some u
   \<and> verb_config v url data (args @ [Fragment (c(''data'' \<mapsto> d))]) ''data'' = Some d
   \<and> verb_config v url data
         (args @ [Fragment [''label'' \<mapsto> JStr A], Fragment [''label'' \<mapsto> JStr B]]) ''label''
       = Some (JStr B)
   \<and> verb_config v url data (args @ Label tag # others) =
       verb_config v url data (args @ Fragment [''label'' \<mapsto> JStr tag] # others)"
proof -
  let ?base = "[''method'' \<mapsto> verb_method v, ''url'' \<mapsto> JStr url, ''data'' \<mapsto> data]"
  have merge: "verb_config v url data args =
     foldl (++) ?base
       ((case verb_configs v of None \<Rightarrow> [] | Some seed \<Rightarrow> [seed]) @ map labelToConfig args)"
    by (simp add: verb_config_def createRequest_config_def Object_assign_def)
  have plain: "verb_config v url data args = foldl (++) ?base (map labelToConfig args)"
    if "v \<noteq> Upload"
    using that unfolding merge by (cases v) simp_all
  have last_wins: "verb_config v url data args k =
       (case find (\<lambda>c. c k \<noteq> None) (rev (map labelToConfig args)) of
          None \<Rightarrow> ?base k | Some c \<Rightarrow> c k)"
    if "v \<noteq> Upload"
    unfolding plain [OF that] by (rule foldl_map_add_lookup)
  have url_replaced:
    "verb_config v url data (args @ [Fragment (c(''url'' \<mapsto> u))]) ''url'' = Some u"
    by (simp add: verb_config_def createRequest_config_def Object_assign_def labelToConfig_def)
  have data_replaced:
    "verb_config v url data (args @ [Fragment (c(''data'' \<mapsto> d))]) ''data'' = Some d"
    by (simp add: verb_config_def createRequest_config_def Object_assign_def labelToConfig_def)
  have label_B: "verb_config v url data
         (args @ [Fragment [''label'' \<mapsto> JStr A], Fragment [''label'' \<mapsto> JStr B]]) ''label''
       = Some (JStr B)"
    by (simp add: verb_config_def createRequest_config_def Object_assign_def labelToConfig_def)
  have shorthand: "verb_config v url data (args @ Label tag # others) =
       verb_config v url data (args @ Fragment [''label'' \<mapsto> JStr tag] # others)"
    by (simp add: verb_config_def createRequest_config_def labelToConfig_Label)
  from merge plain last_wins url_replaced data_replaced label_B shorthand show ?thesis
    by blast
qed

theorem verb_config_merge_witness:
  "Get \<noteq> Upload
   \<and> verb_config Get ''/test'' (JObj [(''id'', JNum 1000)])
       [Label ''tag'', Fragment [''label'' \<mapsto> JStr ''B'']] ''label'' = Some (JStr ''B'')
   \<and> verb_config Get ''/test'' (JObj [(''id'', JNum 1000)])
       [Fragment [''timeout'' \<mapsto> JNum 10, ''url'' \<mapsto> JStr ''/new'']] ''url'' = Some (JStr ''/new'')
   \<and> verb_config Get ''/test'' (JObj [(''id'', JNum 1000)]) [Label ''tag''] =
       verb_config Get ''/test'' (JObj [(''id'', JNum 1000)]) [Fragment [''label'' \<mapsto> JStr ''tag'']]"
proof -
  have v: "Get \<noteq> Upload" by simp
  note inst = verb_config_merge [of Get "''/test''" "JObj [(''id'', JNum 1000)]"]
  from inst [of "[Label ''tag'', Fragment [''label'' \<mapsto> JStr ''B'']]" "''label''"] v
  have 1: "verb_config Get ''/test'' (JObj [(''id'', JNum 1000)])
       [Label ''tag'', Fragment [''label'' \<mapsto> JStr ''B'']] ''label'' = Some (JStr ''B'')"
    by (simp add: labelToConfig_def)
  from inst [of "[]" _ "[''timeout'' \<mapsto> JNum 10]" "JStr ''/new''"]
  have 2: "verb_config Get ''/test'' (JObj [(''id'', JNum 1000)])
       [Fragment [''timeout'' \<mapsto> JNum 10, ''url'' \<mapsto> JStr ''/new'']] ''url'' = Some (JStr ''/new'')"
    by simp
  from inst [of "[]" _ _ _ _ _ _ "''tag''" "[]"]
  have 3: "verb_config Get ''/test'' (JObj [(''id'', JNum 1000)]) [Label ''tag''] =
       verb_config Get ''/test'' (JObj [(''id'', JNum 1000)]) [Fragment [''label'' \<mapsto> JStr ''tag'']]"
    by simp
  from v 1 2 3 show ?thesis by simp
qed

subsection \<open>The body synthesizer\<close>

lemmas toBody_unfold =
  toBody_def toBodyFun_result_def applicationToBodyFun_def contentType_of_def
  contentType_step_def field_def getFormData_def application_json_def application_form_def

text \<open>
  C3 as the specification states it fails: with \<^verbatim>\<open>Content-Type: application/json\<close> and
  \<^verbatim>\<open>content-type: application/x-www-form-urlencoded\<close> both present, the first non-empty
  spelling is the JSON type, and the body synthesizer uses the form type: the body is the
  output of \<^verbatim>\<open>qs.stringify\<close>, not of \<^verbatim>\<open>JSON.stringify\<close>.
\<close>

theorem contentType_first_match_counterexample:
  "get_property
     (JObj [(''Content-Type'', JStr application_json), (''content-type'', JStr application_form)])
     ''Content-Type'' = JStr application_json
   \<and> contentType_of
       [''method'' \<mapsto> JStr ''POST'',
        ''headers'' \<mapsto> JObj [(''Content-Type'', JStr application_json),
                                (''content-type'', JStr application_form)],
        ''data'' \<mapsto> JObj [(''a'', JNum 1)]] = JStr application_form
   \<and> fst (toBody example_runtime
         [''method'' \<mapsto> JStr ''POST'',
          ''headers'' \<mapsto> JObj [(''Content-Type'', JStr application_json),
                                  (''content-type'', JStr application_form)],
          ''data'' \<mapsto> JObj [(''a'', JNum 1)]]) ''body'' = Some (JStr ''a=1'')"
  by (simp add: toBody_unfold example_runtime_def show_int_def show_nat.simps digit_char_def)

text \<open>
  C3, amended. The content type the body synthesizer uses is the last truthy value among
  the header spellings \<^verbatim>\<open>Content-Type\<close>, \<^verbatim>\<open>Content-type\<close>, \<^verbatim>\<open>content-Type\<close>,
  \<^verbatim>\<open>content-type\<close> taken in that order (a later spelling replaces an earlier one), and the
  empty string when \<^verbatim>\<open>headers\<close> is falsy or none of the four is truthy; the non-GET branch
  picks the body function by that value.
\<close>

theorem contentType_last_match:
  "contentType_of config =
     (let headers = field config ''headers'' in
      if \<not> truthy headers then JStr []
      else if truthy (get_property headers ''content-type'') then get_property headers ''content-type''
      else if truthy (get_property headers ''content-Type'') then get_property headers ''content-Type''
      else if truthy (get_property headers ''Content-type'') then get_property headers ''Content-type''
      else if truthy (get_property headers ''Content-Type'') then get_property headers ''Content-Type''
      else JStr [])
   \<and> toBodyFun_result rt config =
       (if truthy (contentType_of config)
        then (case applicationToBodyFun rt (ToString (contentType_of config)) of
                None \<Rightarrow> Inl (TypeError ''toBodyFun is not a function'')
              | Some toBodyFun \<Rightarrow> Inr (toBodyFun (field config ''data'')))
        else getFormData (field config ''data''))"
proof -
  have chain: "contentType_of config =
     (let headers = field config ''headers'' in
      if \<not> truthy headers then JStr []
      else if truthy (get_property headers ''content-type'') then get_property headers ''content-type''
      else if truthy (get_property headers ''content-Type'') then get_property headers ''content-Type''
      else if truthy (get_property headers ''Content-type'') then get_property headers ''Content-type''
      else if truthy (get_property headers ''Content-Type'') then get_property headers ''Content-Type''
      else JStr [])"
    by (simp add: contentType_of_def contentType_step_def Let_def)
  have used: "toBodyFun_result rt config =
       (if truthy (contentType_of config)
        then (case applicationToBodyFun rt (ToString (contentType_of config)) of
                None \<Rightarrow> Inl (TypeError ''toBodyFun is not a function'')
              | Some toBodyFun \<Rightarrow> Inr (toBodyFun (field config ''data'')))
        else getFormData (field config ''data''))"
    by (simp add: toBodyFun_result_def Let_def)
  from chain used show ?thesis by (rule conjI)
qed

theorem contentType_last_match_witness:
  "contentType_of
     [''method'' \<mapsto> JStr ''PUT'',
      ''headers'' \<mapsto> JObj [(''Content-type'', JStr application_form),
                              (''content-Type'', JStr []),
                              (''Content-Type'', JStr application_json)]] = JStr application_form"
  using contentType_last_match [THEN conjunct1, of
      "[''method'' \<mapsto> JStr ''PUT'',
        ''headers'' \<mapsto> JObj [(''Content-type'', JStr application_form),
                                (''content-Type'', JStr []),
                                (''Content-Type'', JStr application_json)]]"]
  by (simp add: field_def application_json_def application_form_def)



text \<open>
  C7: the failing inputs. On the multipart path a \<^verbatim>\<open>null\<close> field of \<^verbatim>\<open>data\<close>, or
  \<^verbatim>\<open>data\<close> left out, makes \<^verbatim>\<open>Object.entries\<close> throw; and a content type that is found
  but is not one of the two known ones selects no function at all, so the call of
  \<^verbatim>\<open>toBodyFun\<close> throws. In each case \<^verbatim>\<open>body\<close> is not set.
\<close>

theorem toBody_multipart_throws:
  "toBody rt [''method'' \<mapsto> JStr ''POST'', ''headers'' \<mapsto> JObj [],
       ''data'' \<mapsto> JObj [(''file'', JFile ''a.png''), (''note'', JNull)]] =
     ([''method'' \<mapsto> JStr ''POST'', ''headers'' \<mapsto> JObj [],
       ''data'' \<mapsto> JObj [(''file'', JFile ''a.png''), (''note'', JNull)]],
      Some (TypeError ''Cannot convert undefined or null to object''))
   \<and> toBody rt [''method'' \<mapsto> JStr ''POST'', ''headers'' \<mapsto> JObj [], ''data'' \<mapsto> JUndefined] =
     ([''method'' \<mapsto> JStr ''POST'', ''headers'' \<mapsto> JObj [], ''data'' \<mapsto> JUndefined],
      Some (TypeError ''Cannot convert undefined or null to object''))
   \<and> toBody rt [''method'' \<mapsto> JStr ''POST'',
       ''headers'' \<mapsto> JObj [(''Content-Type'', JStr ''text/plain'')],
       ''data'' \<mapsto> JObj [(''a'', JNum 1)]] =
     ([''method'' \<mapsto> JStr ''POST'',
       ''headers'' \<mapsto> JObj [(''Content-Type'', JStr ''text/plain'')],
       ''data'' \<mapsto> JObj [(''a'', JNum 1)]],
      Some (TypeError ''toBodyFun is not a function''))"
  by (simp add: toBody_unfold)

lemmas pipeline_unfold =
  request_def requestFunction_builtin_def new_FetchRequest_def initial_fields_def
  merged_config_def verb_config_def createRequest_config_def Object_assign_def labelToConfig_def
  baseURL_def starts_with_http_def restrict_map_def map_add_def Let_def

text \<open>
  The same inputs through the whole pipeline, on a new instance: \<^verbatim>\<open>upload\<close> with a
  \<^verbatim>\<open>null\<close> field or without data, and \<^verbatim>\<open>post\<close> with a \<^verbatim>\<open>text/plain\<close> content
  type. The exception leaves \<^verbatim>\<open>request\<close> before any promise exists.
\<close>

lemma upload_throws:
  "request rt (new_FetchRequest None)
       (verb_config Upload ''/upload'' (JObj [(''file'', JFile ''a.png''), (''note'', JNull)]) []) env
     = Inl (TypeError ''Cannot convert undefined or null to object'')
   \<and> request rt (new_FetchRequest None) (verb_config Upload ''/upload'' JUndefined []) env
     = Inl (TypeError ''Cannot convert undefined or null to object'')
   \<and> request rt (new_FetchRequest None)
       (verb_config Post ''/notes'' (JObj [(''a'', JNum 1)])
          [Fragment [''headers'' \<mapsto> JObj [(''Content-Type'', JStr ''text/plain'')]]]) env
     = Inl (TypeError ''toBodyFun is not a function'')"
  by (simp add: pipeline_unfold toBody_unfold)

text \<open>
  What does hold of the multipart path: on data without \<^verbatim>\<open>null\<close> inside,
  \<open>getFormData\<close> appends exactly the leaves the specification lists, in order.
\<close>

lemma getFormData_fill_spec_leaves:
  "(null_free v \<longrightarrow> typeof v = ''object'' \<longrightarrow> \<not> instanceof_File v \<longrightarrow>
      getFormData_fill v name body = Inr (body @ spec_leaves name v))"
  "(list_all (\<lambda>p. null_free (snd p)) kvs \<longrightarrow>
      getFormData_for kvs key body = Inr (body @ spec_leaves_obj key kvs))"
  "(list_all null_free xs \<longrightarrow>
      getFormData_for (index_entries n xs) key body = Inr (body @ spec_leaves_arr key n xs))"
proof (induction name v and key kvs and key n xs arbitrary: body and body and body
    rule: spec_leaves_spec_leaves_obj_spec_leaves_arr.induct)
  case (13 key i v rest)
  show ?case
  proof
    assume "list_all (\<lambda>p. null_free (snd p)) ((i, v) # rest)"
    then have v: "null_free v" and rest: "list_all (\<lambda>p. null_free (snd p)) rest" by simp_all
    show "getFormData_for ((i, v) # rest) key body
            = Inr (body @ spec_leaves_obj key ((i, v) # rest))"
    proof (cases "typeof v = ''object'' \<and> \<not> instanceof_File v")
      case True
      with 13 v rest show ?thesis by (simp add: spec_field_name_def)
    next
      case False
      then have "spec_leaves (spec_field_name key i) v = [(spec_field_name key i, v)]"
        by (cases v) simp_all
      with False 13 rest show ?thesis by (auto simp: spec_field_name_def)
    qed
  qed
next
  case (15 key n x xs)
  show ?case
  proof
    assume "list_all null_free (x # xs)"
    then have v: "null_free x" and rest: "list_all null_free xs" by simp_all
    show "getFormData_for (index_entries n (x # xs)) key body
            = Inr (body @ spec_leaves_arr key n (x # xs))"
    proof (cases "typeof x = ''object'' \<and> \<not> instanceof_File x")
      case True
      with 15 v rest show ?thesis by (simp add: spec_field_name_def)
    next
      case False
      then have "spec_leaves (spec_field_name key (show_nat n)) x
                   = [(spec_field_name key (show_nat n), x)]"
        by (cases x) simp_all
      with False 15 rest show ?thesis by (auto simp: spec_field_name_def)
    qed
  qed
qed simp_all

lemma getFormData_payload:
  "getFormData (JFormData fd) = Inr (JFormData fd)"
  "null_free (JObj kvs) \<Longrightarrow> getFormData (JObj kvs) = Inr (JFormData (spec_leaves_obj [] kvs))"
  "null_free (JArr xs) \<Longrightarrow> getFormData (JArr xs) = Inr (JFormData (spec_leaves_arr [] 0 xs))"
  using getFormData_fill_spec_leaves(1) [of "JObj kvs" "[]" "[]"]
    getFormData_fill_spec_leaves(1) [of "JArr xs" "[]" "[]"]
  by (simp_all add: getFormData_def)

lemma toBody_multipart_payload:
  assumes "field config ''method'' \<noteq> JStr ''GET''"
    and "\<not> truthy (contentType_of config)"
    and "field config ''data'' = JObj kvs"
    and "null_free (JObj kvs)"
  shows "toBody rt config = (config(''body'' \<mapsto> JFormData (spec_leaves_obj [] kvs)), None)"
  using assms getFormData_payload(2) [of kvs]
  by (simp add: toBody_def toBodyFun_result_def)

lemma toBody_multipart_example:
  "toBody rt [''method'' \<mapsto> JStr ''POST'', ''headers'' \<mapsto> JObj [],
       ''data'' \<mapsto> JObj [(''name'', JStr ''x''),
                            (''meta'', JObj [(''tags'', JArr [JStr ''a'', JStr ''b'']),
                                             (''file'', JFile ''a.png'')])]] =
     ([''method'' \<mapsto> JStr ''POST'', ''headers'' \<mapsto> JObj [],
       ''data'' \<mapsto> JObj [(''name'', JStr ''x''),
                            (''meta'', JObj [(''tags'', JArr [JStr ''a'', JStr ''b'']),
                                             (''file'', JFile ''a.png'')])],
       ''body'' \<mapsto> JFormData [(''name'', JStr ''x''), (''meta[tags][0]'', JStr ''a''),
                                  (''meta[tags][1]'', JStr ''b''), (''meta[file]'', JFile ''a.png'')]],
      None)"
  by (simp add: toBody_unfold show_nat.simps digit_char_def)



subsection \<open>The configuration merge\<close>

lemma starts_with_http_append: "starts_with_http a \<Longrightarrow> starts_with_http (a @ b)"
proof -
  assume h: "starts_with_http a"
  then have "length (take 4 a) = 4" by (simp add: starts_with_http_def)
  then have "4 \<le> length a" by simp
  with h show ?thesis by (simp add: starts_with_http_def)
qed

lemma merged_config_url_lookup:
  assumes "defaultConfig this ''url'' = None"
  shows "merged_config this configs ''url'' =
     Some (let url0 = (if field configs ''url'' = JUndefined then JStr [] else field configs ''url'')
           in if starts_with_http (ToString url0) then url0
              else JStr (baseURL this @ ToString url0))"
  using assms
  by (simp add: merged_config_def Object_assign_def Let_def map_add_def restrict_map_def)


text \<open>
  C2 as the specification states it fails: an instance made without \<^verbatim>\<open>host\<close> and
  \<^verbatim>\<open>apiPath\<close> (both are the empty string then) leaves the relative \<^verbatim>\<open>/test\<close> as it is.
\<close>

theorem merged_config_url_counterexample:
  "merged_config (new_FetchRequest None) [''url'' \<mapsto> JStr ''/test''] ''url'' = Some (JStr ''/test'')
   \<and> \<not> starts_with_http ''/test''"
  by (simp add: merged_config_def new_FetchRequest_def initial_fields_def Object_assign_def
      Let_def map_add_def restrict_map_def field_def baseURL_def starts_with_http_def)

text \<open>
  C2, amended. When \<^verbatim>\<open>defaultConfig\<close> has no \<^verbatim>\<open>url\<close> key, the merged \<^verbatim>\<open>url\<close> is
  the incoming one (the empty string when it is left out or \<^verbatim>\<open>undefined\<close>) if that starts
  with \<^verbatim>\<open>http\<close>, and \<^verbatim>\<open>host + apiPath\<close> followed by it, once, otherwise. So it starts
  with \<^verbatim>\<open>http\<close> whenever \<^verbatim>\<open>host + apiPath\<close> does. The prefix is applied to the
  \<^verbatim>\<open>url\<close> that comes out of the verb function's merge of its fragments: a last fragment's
  \<^verbatim>\<open>url\<close> is the one that is tested and prefixed.
\<close>

theorem merged_config_url:
  assumes "defaultConfig this ''url'' = None"
  shows "merged_config this configs ''url'' =
           Some (let url0 = (if field configs ''url'' = JUndefined then JStr []
                             else field configs ''url'')
                 in if starts_with_http (ToString url0) then url0
                    else JStr (host this @ apiPath this @ ToString url0))
         \<and> (\<forall>u. configs ''url'' = Some (JStr u) \<longrightarrow>
               merged_config this configs ''url'' =
                 Some (JStr (if starts_with_http u then u else host this @ apiPath this @ u)))
         \<and> (configs ''url'' = None \<longrightarrow>
               merged_config this configs ''url'' = Some (JStr (host this @ apiPath this)))
         \<and> (starts_with_http (host this @ apiPath this) \<longrightarrow>
               starts_with_http (ToString (field (merged_config this configs) ''url'')))
         \<and> (\<forall>u. merged_config this
                   (verb_config v url1 data (args @ [Fragment (c(''url'' \<mapsto> JStr u))])) ''url'' =
                 Some (JStr (if starts_with_http u then u else host this @ apiPath this @ u)))"
proof -
  note look = merged_config_url_lookup [OF assms, of configs]
  have general: "merged_config this configs ''url'' =
           Some (let url0 = (if field configs ''url'' = JUndefined then JStr []
                             else field configs ''url'')
                 in if starts_with_http (ToString url0) then url0
                    else JStr (host this @ apiPath this @ ToString url0))"
    unfolding look baseURL_def by (simp add: Let_def)
  have string: "merged_config this cs ''url'' =
                 Some (JStr (if starts_with_http u then u else host this @ apiPath this @ u))"
    if "cs ''url'' = Some (JStr u)" for u cs
    using merged_config_url_lookup [OF assms, of cs] that
    by (simp add: baseURL_def field_def)
  have absent: "merged_config this configs ''url'' = Some (JStr (host this @ apiPath this))"
    if "configs ''url'' = None"
    using look that by (simp add: baseURL_def field_def starts_with_http_def)
  have http: "starts_with_http (ToString (field (merged_config this configs) ''url''))"
    if "starts_with_http (host this @ apiPath this)"
    using general starts_with_http_append [OF that]
    by (simp add: field_def Let_def)
  have "verb_config v url1 data (args @ [Fragment (c(''url'' \<mapsto> JStr u))]) ''url''
          = Some (JStr u)" for u
    by (simp add: verb_config_def createRequest_config_def Object_assign_def labelToConfig_def)
  then have frag: "merged_config this
                   (verb_config v url1 data (args @ [Fragment (c(''url'' \<mapsto> JStr u))])) ''url'' =
                 Some (JStr (if starts_with_http u then u else host this @ apiPath this @ u))" for u
    by (rule string)
  from general string [of configs] absent http frag show ?thesis by blast
qed

theorem merged_config_url_witness:
  "defaultConfig (new_FetchRequest (Some \<lparr>init_defaultConfig = None,
       init_host = Some ''http://localhost'', init_apiPath = Some ''/api'',
       init_interceptorsRequest = None, init_interceptorsResponse = None,
       init_requestFunction = None\<rparr>)) ''url'' = None
   \<and> merged_config (new_FetchRequest (Some \<lparr>init_defaultConfig = None,
       init_host = Some ''http://localhost'', init_apiPath = Some ''/api'',
       init_interceptorsRequest = None, init_interceptorsResponse = None,
       init_requestFunction = None\<rparr>)) [''url'' \<mapsto> JStr ''/test''] ''url''
       = Some (JStr ''http://localhost/api/test'')"
proof -
  let ?fr = "new_FetchRequest (Some \<lparr>init_defaultConfig = None,
       init_host = Some ''http://localhost'', init_apiPath = Some ''/api'',
       init_interceptorsRequest = None, init_interceptorsResponse = None,
       init_requestFunction = None\<rparr>)"
  have d: "defaultConfig ?fr ''url'' = None"
    by (simp add: new_FetchRequest_def initial_fields_def Object_assign_def)
  from merged_config_url [OF d, THEN conjunct2, THEN conjunct1, of "[''url'' \<mapsto> JStr ''/test'']"]
  have "merged_config ?fr [''url'' \<mapsto> JStr ''/test''] ''url'' = Some (JStr ''http://localhost/api/test'')"
    by (simp add: new_FetchRequest_def starts_with_http_def)
  with d show ?thesis by simp
qed




subsection \<open>The request pipeline\<close>













end
